theory Spec2Isabelle
  imports Complex_Main
begin

section \<open>CSV field escaping (src/utils/analyticsExport.ts)\<close>

text \<open>
  A JavaScript string is modelled as a \<^typ>\<open>string\<close> (a list of characters). The four
  characters \<open>escapeCSV\<close> looks for are ASCII, so nothing depends on the encoding of the rest.
\<close>

definition comma :: char where "comma = CHR '',''"
definition dquote :: char where "dquote = CHR 0x22"
definition newline :: char where "newline = CHR 0x0A"
definition cr :: char where "cr = CHR 0x0D"

text \<open>\<^verbatim>\<open>value.includes(c)\<close> for a one-character needle.\<close>

definition str_includes :: "string \<Rightarrow> char \<Rightarrow> bool" where
  "str_includes v c = (c \<in> set v)"

text \<open>\<^verbatim>\<open>value.replace(/"/g, '""')\<close>: every double quote becomes two.\<close>

fun replace_quotes :: "string \<Rightarrow> string" where
  "replace_quotes [] = []"
| "replace_quotes (c # cs) =
     (if c = dquote then dquote # dquote # replace_quotes cs else c # replace_quotes cs)"

definition escapeCSV :: "string \<Rightarrow> string" where
  "escapeCSV v =
     (if str_includes v comma \<or> str_includes v newline \<or> str_includes v dquote \<or> str_includes v cr
      then dquote # replace_quotes v @ [dquote]
      else v)"

text \<open>
  The reader of a CSV field, written from the claim's words (it is not part of the
  repository): a field that starts with a double quote loses its first and last character
  and has every doubled quote collapsed to one; any other field is taken as it is.
\<close>

fun collapse_quotes :: "string \<Rightarrow> string" where
  "collapse_quotes (c # d # cs) =
     (if c = dquote \<and> d = dquote then dquote # collapse_quotes cs
      else c # collapse_quotes (d # cs))"
| "collapse_quotes cs = cs"

definition parse_csv_field :: "string \<Rightarrow> string" where
  "parse_csv_field f =
     (case f of
        [] \<Rightarrow> []
      | c # cs \<Rightarrow> if c = dquote then collapse_quotes (butlast cs) else f)"

section \<open>Drill-down panel state (src/hooks/useAnalyticsData.ts)\<close>

datatype panel = Subject | Faculty | Division

text \<open>\<open>null\<close> is \<open>None\<close> in every field.\<close>

record DrillDownState =
  activePanel :: "panel option"
  subjectId :: "string option"
  subjectName :: "string option"
  facultyId :: "string option"
  facultyName :: "string option"
  divisionId :: "string option"
  divisionName :: "string option"

definition initialDrillDownState :: DrillDownState where
  "initialDrillDownState =
     \<lparr>activePanel = None, subjectId = None, subjectName = None, facultyId = None,
      facultyName = None, divisionId = None, divisionName = None\<rparr>"

text \<open>
  Each callback of \<open>useAnalyticsDrillDown\<close> as a function from the previous state to the
  next one. The \<open>open...\<close> callbacks and \<open>closePanel\<close> ignore the previous state; the
  \<open>navigateTo...\<close> callbacks spread it.
\<close>

definition openSubjectPanel :: "string \<Rightarrow> string \<Rightarrow> DrillDownState \<Rightarrow> DrillDownState" where
  "openSubjectPanel sid sname prev =
     initialDrillDownState\<lparr>activePanel := Some Subject, subjectId := Some sid,
       subjectName := Some sname\<rparr>"

definition openFacultyPanel :: "string \<Rightarrow> string \<Rightarrow> DrillDownState \<Rightarrow> DrillDownState" where
  "openFacultyPanel fid fname prev =
     initialDrillDownState\<lparr>activePanel := Some Faculty, facultyId := Some fid,
       facultyName := Some fname\<rparr>"

definition openDivisionPanel :: "string \<Rightarrow> string \<Rightarrow> DrillDownState \<Rightarrow> DrillDownState" where
  "openDivisionPanel did dname prev =
     initialDrillDownState\<lparr>activePanel := Some Division, divisionId := Some did,
       divisionName := Some dname\<rparr>"

definition closePanel :: "DrillDownState \<Rightarrow> DrillDownState" where
  "closePanel prev = initialDrillDownState"

definition navigateToSubject :: "string \<Rightarrow> string \<Rightarrow> DrillDownState \<Rightarrow> DrillDownState" where
  "navigateToSubject sid sname prev =
     prev\<lparr>activePanel := Some Subject, subjectId := Some sid, subjectName := Some sname\<rparr>"

definition navigateToFaculty :: "string \<Rightarrow> string \<Rightarrow> DrillDownState \<Rightarrow> DrillDownState" where
  "navigateToFaculty fid fname prev =
     prev\<lparr>activePanel := Some Faculty, facultyId := Some fid, facultyName := Some fname\<rparr>"

definition navigateToDivision :: "string \<Rightarrow> string \<Rightarrow> DrillDownState \<Rightarrow> DrillDownState" where
  "navigateToDivision did dname prev =
     prev\<lparr>activePanel := Some Division, divisionId := Some did, divisionName := Some dname\<rparr>"

text \<open>The calls a user of the hook can make, and the state after a sequence of them.\<close>

datatype drill_action =
    OpenSubjectPanel string string
  | OpenFacultyPanel string string
  | OpenDivisionPanel string string
  | ClosePanel
  | NavigateToSubject string string
  | NavigateToFaculty string string
  | NavigateToDivision string string

fun drill_step :: "DrillDownState \<Rightarrow> drill_action \<Rightarrow> DrillDownState" where
  "drill_step s (OpenSubjectPanel i n) = openSubjectPanel i n s"
| "drill_step s (OpenFacultyPanel i n) = openFacultyPanel i n s"
| "drill_step s (OpenDivisionPanel i n) = openDivisionPanel i n s"
| "drill_step s ClosePanel = closePanel s"
| "drill_step s (NavigateToSubject i n) = navigateToSubject i n s"
| "drill_step s (NavigateToFaculty i n) = navigateToFaculty i n s"
| "drill_step s (NavigateToDivision i n) = navigateToDivision i n s"

definition drill_run :: "drill_action list \<Rightarrow> DrillDownState" where
  "drill_run as = foldl drill_step initialDrillDownState as"

definition panel_has_id :: "DrillDownState \<Rightarrow> bool" where
  "panel_has_id s =
     ((activePanel s = Some Subject \<longrightarrow> subjectId s \<noteq> None) \<and>
      (activePanel s = Some Faculty \<longrightarrow> facultyId s \<noteq> None) \<and>
      (activePanel s = Some Division \<longrightarrow> divisionId s \<noteq> None))"

section \<open>Filter parameters and the filter cascade (src/app/(main)/executive/page.tsx)\<close>

text \<open>
  Modelled from the spec: the interface \<open>AnalyticsFilterParams\<close> (src/interfaces/analytics.ts
  is missing). The spec calls its members optional scope filters with string identifiers;
  the object is modelled as a map from property names to values, where a property that is
  absent or \<open>undefined\<close> reads as \<open>None\<close>. The hook tests
  \<^verbatim>\<open>typeof filters.divisionId === "string"\<close>, so a value is either a string or something
  else.
\<close>

datatype filter_value = StringValue string | NonString

type_synonym AnalyticsFilterParams = "string \<rightharpoonup> filter_value"

text \<open>
  \<^verbatim>\<open>const newFilters = { ...filters, [key]: value }\<close>, then the dependent filters are
  cleared. The function returns the object handed to \<open>setFilters\<close>.
\<close>

definition handleFilterChange ::
  "AnalyticsFilterParams \<Rightarrow> string \<Rightarrow> string option \<Rightarrow> AnalyticsFilterParams" where
  "handleFilterChange filters key v =
     (let newFilters = filters(key := map_option StringValue v) in
      if key = ''academicYearId''
      then newFilters(''departmentId'' := None, ''semesterId'' := None)
      else if key = ''departmentId''
      then newFilters(''semesterId'' := None)
      else newFilters)"

section \<open>JavaScript numbers\<close>

text \<open>
  A finite JavaScript number is modelled as a rational, so arithmetic is exact: the rounding
  of IEEE doubles and the sign of zero are outside the model. Counts are natural numbers.
\<close>

text \<open>\<^verbatim>\<open>Math.round\<close>: the nearest integer, a tie going up.\<close>

definition math_round :: "rat \<Rightarrow> int" where
  "math_round x = \<lfloor>x + 1 / 2\<rfloor>"

text \<open>
  \<^verbatim>\<open>Number(x.toFixed(d))\<close>. \<open>toFixed\<close> works on the absolute value: it takes the integer
  \<open>n\<close> with \<open>n / 10^d\<close> nearest to it (the larger one on a tie), and puts the sign back. From
  \<open>10^21\<close> on it prints the number itself.
\<close>

definition toFixed_number :: "nat \<Rightarrow> rat \<Rightarrow> rat" where
  "toFixed_number d x =
     (if 10 ^ 21 \<le> \<bar>x\<bar> then x
      else (if x < 0 then - 1 else 1) * of_int \<lfloor>\<bar>x\<bar> * 10 ^ d + 1 / 2\<rfloor> / 10 ^ d)"

text \<open>
  The one division of the dashboard that no test guards is the one in a performer's trend;
  its result can be \<open>NaN\<close> or infinite.
\<close>

datatype js_number = Num rat | NaN | Infinity | NegInfinity

definition js_div :: "rat \<Rightarrow> rat \<Rightarrow> js_number" where
  "js_div a b =
     (if b \<noteq> 0 then Num (a / b)
      else if 0 < a then Infinity else if a < 0 then NegInfinity else NaN)"

text \<open>Multiplication by a positive constant, and \<^verbatim>\<open>Number(x.toFixed(d))\<close> again.\<close>

fun js_scale :: "js_number \<Rightarrow> rat \<Rightarrow> js_number" where
  "js_scale (Num x) k = Num (x * k)"
| "js_scale v k = v"

fun js_toFixed_number :: "nat \<Rightarrow> js_number \<Rightarrow> js_number" where
  "js_toFixed_number d (Num x) = Num (toFixed_number d x)"
| "js_toFixed_number d v = v"

text \<open>\<^verbatim>\<open>x || 0\<close> for a number that may be \<open>null\<close> or \<open>undefined\<close>.\<close>

definition or_zero :: "rat option \<Rightarrow> rat" where
  "or_zero x = (case x of None \<Rightarrow> 0 | Some r \<Rightarrow> r)"

text \<open>\<^verbatim>\<open>xs[xs.length - 1]\<close>, which is \<open>undefined\<close> on the empty array.\<close>

definition last_elem :: "'a list \<Rightarrow> 'a option" where
  "last_elem xs = (if xs = [] then None else Some (last xs))"

text \<open>
  A template literal is kept as its pieces: the literal text and the numbers printed into
  it (as they are, or through \<open>toFixed\<close>). How JavaScript prints a number is not modelled.
\<close>

datatype text_part = Lit string | ShowNumber rat | ShowFixed nat rat

type_synonym template = "text_part list"

section \<open>Feedback snapshots and the derived views\<close>

text \<open>
  Modelled from the spec: the interface \<open>FeedbackSnapshot\<close> (src/interfaces/analytics.ts is
  missing), with the attributes the spec's data model lists. Identifiers and names are
  strings; a \<open>rating\<close> of \<open>null\<close> is \<open>None\<close>.
\<close>

datatype lecture_type = LECTURE | LAB

record FeedbackSnapshot =
  studentId :: string
  subjectId :: string
  subjectName :: string
  facultyId :: string
  facultyName :: string
  divisionId :: string
  divisionName :: string
  departmentId :: string
  departmentName :: string
  academicYearId :: string
  academicYearString :: string
  semesterId :: string
  semesterNumber :: nat
  lectureType :: lecture_type
  rating :: "rat option"
  questionCategoryId :: string
  questionCategoryName :: string

text \<open>
  Modelled from the spec: the interfaces of the derived views (src/interfaces/analytics.ts
  is missing). The fields are the ones the dashboard reads
  (src/app/(main)/executive/page.tsx) and the ones the spec's data model names. A mean that
  the dashboard computes with is a \<^typ>\<open>rat\<close>; one that it compares with \<open>null\<close> or reads
  through \<^verbatim>\<open>|| 0\<close> is a \<^typ>\<open>rat option\<close>.
\<close>

record OverallStats =
  totalResponses :: nat
  averageRating :: "rat option"
  uniqueSubjects :: nat
  uniqueFaculties :: nat
  uniqueStudents :: nat
  uniqueDivisions :: nat
  uniqueDepartments :: nat

record SubjectRating =
  subjectId :: string
  subjectName :: string
  lectureRating :: "rat option"
  labRating :: "rat option"
  overallAverageRating :: "rat option"
  totalLectureResponses :: nat
  totalLabResponses :: nat
  totalOverallResponses :: nat
  facultyCount :: nat
  divisionCount :: nat

record FacultyPerformance =
  facultyId :: string
  facultyName :: string
  averageRating :: rat
  totalResponses :: nat
  rank :: nat
  subjectCount :: nat
  divisionCount :: nat

record DivisionComparison =
  divisionId :: string
  divisionName :: string
  averageRating :: rat
  totalResponses :: nat

record LectureLabComparison =
  lectureAverageRating :: "rat option"
  labAverageRating :: "rat option"
  totalLectureResponses :: nat
  totalLabResponses :: nat

record DepartmentData =
  departmentId :: string
  departmentName :: string
  averageRating :: rat
  responseCount :: nat

record AcademicYearDepartmentTrend =
  academicYearId :: string
  academicYearString :: string
  departmentData :: "DepartmentData list"

record AcademicYearData =
  academicYearId :: string
  academicYearString :: string
  averageRating :: rat
  responseCount :: nat

record AcademicYearSemesterTrend =
  semesterNumber :: nat
  academicYearData :: "AcademicYearData list"

record DivisionData =
  divisionId :: string
  divisionName :: string
  averageRating :: rat
  responseCount :: nat

record AcademicYearDivisionTrend =
  academicYearId :: string
  academicYearString :: string
  divisionData :: "DivisionData list"

record SubjectFacultyPerformance =
  subjectId :: string
  subjectName :: string
  facultyId :: string
  facultyName :: string
  averageRating :: rat
  responseCount :: nat

record FacultyBreakdown =
  facultyId :: string
  facultyName :: string
  averageRating :: rat
  responseCount :: nat
  divisions :: "string list"

record DivisionBreakdown =
  divisionId :: string
  divisionName :: string
  lectureRating :: "rat option"
  labRating :: "rat option"
  overallRating :: "rat option"
  responseCount :: nat

record CategoryBreakdown =
  questionCategoryId :: string
  questionCategoryName :: string
  averageRating :: rat

record SubjectFacultyDetailPerformance =
  facultyBreakdown :: "FacultyBreakdown list"
  divisionBreakdown :: "DivisionBreakdown list"
  categoryBreakdown :: "CategoryBreakdown list"

record FilteringOptions =
  academicYears :: "(string \<times> string) list"
  departments :: "(string \<times> string) list"
  semesters :: "(string \<times> nat) list"
  divisions :: "(string \<times> string) list"
  subjects :: "(string \<times> string) list"
  faculty :: "(string \<times> string) list"

section \<open>The aggregation engine\<close>

text \<open>
  Modelled from the spec: the class \<open>AnalyticsDataProcessor\<close> (src/utils/analyticsProcessor.ts
  is missing; the hook below calls it). Every function of this section follows the spec's
  description of the operation of the same name (the spec writes \<open>compute\<close> where the hook
  writes \<open>process\<close>). A response counts towards a mean and towards a response count when
  its rating is not \<open>null\<close>; a group with no such response has no mean, which is \<open>None\<close>
  where the view allows \<open>null\<close> and 0 where the view holds a number (the spec leaves that
  case open).
\<close>

definition first_seen :: "'a list \<Rightarrow> 'a list" where
  "first_seen xs = rev (remdups (rev xs))"

definition keys_of :: "('a \<Rightarrow> 'k) \<Rightarrow> 'a list \<Rightarrow> 'k list" where
  "keys_of f xs = first_seen (map f xs)"

definition group_of :: "('a \<Rightarrow> 'k) \<Rightarrow> 'k \<Rightarrow> 'a list \<Rightarrow> 'a list" where
  "group_of f k xs = filter (\<lambda>x. f x = k) xs"

definition label_of :: "('a \<Rightarrow> 'v) \<Rightarrow> 'v \<Rightarrow> 'a list \<Rightarrow> 'v" where
  "label_of g d xs = (case xs of [] \<Rightarrow> d | x # _ \<Rightarrow> g x)"

fun ratings :: "FeedbackSnapshot list \<Rightarrow> rat list" where
  "ratings [] = []"
| "ratings (x # xs) =
     (case FeedbackSnapshot.rating x of None \<Rightarrow> ratings xs | Some r \<Rightarrow> r # ratings xs)"

definition mean :: "rat list \<Rightarrow> rat option" where
  "mean rs = (if rs = [] then None else Some (sum_list rs / of_nat (length rs)))"

definition mean_number :: "rat list \<Rightarrow> rat" where
  "mean_number rs = or_zero (mean rs)"

definition distinct_count :: "('a \<Rightarrow> 'k) \<Rightarrow> 'a list \<Rightarrow> nat" where
  "distinct_count f xs = card (set (map f xs))"

definition segment :: "lecture_type \<Rightarrow> FeedbackSnapshot list \<Rightarrow> FeedbackSnapshot list" where
  "segment t xs = filter (\<lambda>x. lectureType x = t) xs"

text \<open>The response-weighted mean of the lecture and the lab mean.\<close>

definition weighted_mean :: "rat option \<Rightarrow> nat \<Rightarrow> rat option \<Rightarrow> nat \<Rightarrow> rat option" where
  "weighted_mean mL L mB B =
     (if L + B = 0 then None
      else Some ((or_zero mL * of_nat L + or_zero mB * of_nat B) / of_nat (L + B)))"

text \<open>
  Modelled from the spec: \<open>processOverallStats\<close> (the spec's \<open>computeOverallStats\<close>) is missing.
  It is \<open>null\<close> only on the empty array; otherwise the number of snapshots, the mean of the
  ratings and the distinct counts of the identifiers.
\<close>

definition processOverallStats :: "FeedbackSnapshot list \<Rightarrow> OverallStats option" where
  "processOverallStats snapshots =
     (if snapshots = [] then None
      else Some
        \<lparr>OverallStats.totalResponses = length snapshots,
         OverallStats.averageRating = mean (ratings snapshots),
         OverallStats.uniqueSubjects = distinct_count FeedbackSnapshot.subjectId snapshots,
         OverallStats.uniqueFaculties = distinct_count FeedbackSnapshot.facultyId snapshots,
         OverallStats.uniqueStudents = distinct_count FeedbackSnapshot.studentId snapshots,
         OverallStats.uniqueDivisions = distinct_count FeedbackSnapshot.divisionId snapshots,
         OverallStats.uniqueDepartments =
           distinct_count FeedbackSnapshot.departmentId snapshots\<rparr>)"

definition subject_rating :: "FeedbackSnapshot list \<Rightarrow> SubjectRating" where
  "subject_rating g =
     (let lec = ratings (segment LECTURE g); lab = ratings (segment LAB g) in
      \<lparr>SubjectRating.subjectId = label_of FeedbackSnapshot.subjectId [] g,
       SubjectRating.subjectName = label_of FeedbackSnapshot.subjectName [] g,
       SubjectRating.lectureRating = mean lec,
       SubjectRating.labRating = mean lab,
       SubjectRating.overallAverageRating =
         weighted_mean (mean lec) (length lec) (mean lab) (length lab),
       SubjectRating.totalLectureResponses = length lec,
       SubjectRating.totalLabResponses = length lab,
       SubjectRating.totalOverallResponses = length lec + length lab,
       SubjectRating.facultyCount = distinct_count FeedbackSnapshot.facultyId g,
       SubjectRating.divisionCount = distinct_count FeedbackSnapshot.divisionId g\<rparr>)"

text \<open>
  Modelled from the spec: \<open>processSubjectRatings\<close> is missing. One entry for each distinct
  \<open>subjectId\<close>: the subject's snapshots are split into lecture and lab, each segment has its
  mean (\<open>null\<close> without ratings) and its count, and the overall rating is their
  response-weighted mean.
\<close>

definition processSubjectRatings :: "FeedbackSnapshot list \<Rightarrow> SubjectRating list" where
  "processSubjectRatings snapshots =
     map (\<lambda>k. subject_rating (group_of FeedbackSnapshot.subjectId k snapshots))
       (keys_of FeedbackSnapshot.subjectId snapshots)"

definition faculty_row :: "FeedbackSnapshot list \<Rightarrow> FacultyPerformance" where
  "faculty_row g =
     \<lparr>FacultyPerformance.facultyId = label_of FeedbackSnapshot.facultyId [] g,
      FacultyPerformance.facultyName = label_of FeedbackSnapshot.facultyName [] g,
      FacultyPerformance.averageRating = mean_number (ratings g),
      FacultyPerformance.totalResponses = length (ratings g),
      FacultyPerformance.rank = 0,
      FacultyPerformance.subjectCount = distinct_count FeedbackSnapshot.subjectId g,
      FacultyPerformance.divisionCount = distinct_count FeedbackSnapshot.divisionId g\<rparr>"

text \<open>
  Rank 1 goes to the highest mean; \<open>sort_key\<close> is stable, so equal means keep the order in
  which their faculty were first seen.
\<close>

definition assign_ranks :: "FacultyPerformance list \<Rightarrow> FacultyPerformance list" where
  "assign_ranks rows =
     map (\<lambda>(i, r). r\<lparr>FacultyPerformance.rank := Suc i\<rparr>)
       (enumerate 0 (sort_key (\<lambda>r. - FacultyPerformance.averageRating r) rows))"

text \<open>
  Modelled from the spec: \<open>processFacultyPerformance\<close> is missing. One entry for each distinct
  \<open>facultyId\<close> with its mean rating and its responses, sorted by falling mean and ranked.
\<close>

definition processFacultyPerformance :: "FeedbackSnapshot list \<Rightarrow> FacultyPerformance list" where
  "processFacultyPerformance snapshots =
     assign_ranks
       (map (\<lambda>k. faculty_row (group_of FeedbackSnapshot.facultyId k snapshots))
          (keys_of FeedbackSnapshot.facultyId snapshots))"

definition division_row :: "FeedbackSnapshot list \<Rightarrow> DivisionComparison" where
  "division_row g =
     \<lparr>DivisionComparison.divisionId = label_of FeedbackSnapshot.divisionId [] g,
      DivisionComparison.divisionName = label_of FeedbackSnapshot.divisionName [] g,
      DivisionComparison.averageRating = mean_number (ratings g),
      DivisionComparison.totalResponses = length (ratings g)\<rparr>"

text \<open>
  Modelled from the spec: \<open>processDivisionComparisons\<close> is missing. One entry for each
  distinct \<open>divisionId\<close>: its mean rating and its response count.
\<close>

definition processDivisionComparisons :: "FeedbackSnapshot list \<Rightarrow> DivisionComparison list" where
  "processDivisionComparisons snapshots =
     map (\<lambda>k. division_row (group_of FeedbackSnapshot.divisionId k snapshots))
       (keys_of FeedbackSnapshot.divisionId snapshots)"

text \<open>
  Modelled from the spec: \<open>processLectureLabComparison\<close> is missing. The lecture mean and the
  lab mean over all snapshots, with their counts; \<open>null\<close> on the empty array.
\<close>

definition processLectureLabComparison ::
  "FeedbackSnapshot list \<Rightarrow> LectureLabComparison option" where
  "processLectureLabComparison snapshots =
     (if snapshots = [] then None
      else
        (let lec = ratings (segment LECTURE snapshots); lab = ratings (segment LAB snapshots) in
         Some
           \<lparr>LectureLabComparison.lectureAverageRating = mean lec,
            LectureLabComparison.labAverageRating = mean lab,
            LectureLabComparison.totalLectureResponses = length lec,
            LectureLabComparison.totalLabResponses = length lab\<rparr>))"

definition department_cell :: "FeedbackSnapshot list \<Rightarrow> DepartmentData" where
  "department_cell g =
     \<lparr>DepartmentData.departmentId = label_of FeedbackSnapshot.departmentId [] g,
      DepartmentData.departmentName = label_of FeedbackSnapshot.departmentName [] g,
      DepartmentData.averageRating = mean_number (ratings g),
      DepartmentData.responseCount = length (ratings g)\<rparr>"

text \<open>
  Modelled from the spec: \<open>processAcademicYearDepartmentTrends\<close> is missing. The snapshots are
  grouped by academic year, then by department: a mean and a count for each cell.
\<close>

definition processAcademicYearDepartmentTrends ::
  "FeedbackSnapshot list \<Rightarrow> AcademicYearDepartmentTrend list" where
  "processAcademicYearDepartmentTrends snapshots =
     map (\<lambda>y. let g = group_of FeedbackSnapshot.academicYearId y snapshots in
        \<lparr>AcademicYearDepartmentTrend.academicYearId = y,
         AcademicYearDepartmentTrend.academicYearString =
           label_of FeedbackSnapshot.academicYearString [] g,
         AcademicYearDepartmentTrend.departmentData =
           map (\<lambda>k. department_cell (group_of FeedbackSnapshot.departmentId k g))
             (keys_of FeedbackSnapshot.departmentId g)\<rparr>)
       (keys_of FeedbackSnapshot.academicYearId snapshots)"

definition year_cell :: "FeedbackSnapshot list \<Rightarrow> AcademicYearData" where
  "year_cell g =
     \<lparr>AcademicYearData.academicYearId = label_of FeedbackSnapshot.academicYearId [] g,
      AcademicYearData.academicYearString = label_of FeedbackSnapshot.academicYearString [] g,
      AcademicYearData.averageRating = mean_number (ratings g),
      AcademicYearData.responseCount = length (ratings g)\<rparr>"

text \<open>
  Modelled from the spec: \<open>processAcademicYearSemesterTrends\<close> is missing. The snapshots are
  grouped by semester number; each semester lists a mean and a count for each academic year.
\<close>

definition processAcademicYearSemesterTrends ::
  "FeedbackSnapshot list \<Rightarrow> AcademicYearSemesterTrend list" where
  "processAcademicYearSemesterTrends snapshots =
     map (\<lambda>n. let g = group_of FeedbackSnapshot.semesterNumber n snapshots in
        \<lparr>AcademicYearSemesterTrend.semesterNumber = n,
         AcademicYearSemesterTrend.academicYearData =
           map (\<lambda>y. year_cell (group_of FeedbackSnapshot.academicYearId y g))
             (keys_of FeedbackSnapshot.academicYearId g)\<rparr>)
       (keys_of FeedbackSnapshot.semesterNumber snapshots)"

definition division_cell :: "FeedbackSnapshot list \<Rightarrow> DivisionData" where
  "division_cell g =
     \<lparr>DivisionData.divisionId = label_of FeedbackSnapshot.divisionId [] g,
      DivisionData.divisionName = label_of FeedbackSnapshot.divisionName [] g,
      DivisionData.averageRating = mean_number (ratings g),
      DivisionData.responseCount = length (ratings g)\<rparr>"

text \<open>
  Modelled from the spec: \<open>processAcademicYearDivisionTrends\<close> is missing. As for the
  departments, by division within the year.
\<close>

definition processAcademicYearDivisionTrends ::
  "FeedbackSnapshot list \<Rightarrow> AcademicYearDivisionTrend list" where
  "processAcademicYearDivisionTrends snapshots =
     map (\<lambda>y. let g = group_of FeedbackSnapshot.academicYearId y snapshots in
        \<lparr>AcademicYearDivisionTrend.academicYearId = y,
         AcademicYearDivisionTrend.academicYearString =
           label_of FeedbackSnapshot.academicYearString [] g,
         AcademicYearDivisionTrend.divisionData =
           map (\<lambda>k. division_cell (group_of FeedbackSnapshot.divisionId k g))
             (keys_of FeedbackSnapshot.divisionId g)\<rparr>)
       (keys_of FeedbackSnapshot.academicYearId snapshots)"

definition subject_faculty_row :: "FeedbackSnapshot list \<Rightarrow> SubjectFacultyPerformance" where
  "subject_faculty_row g =
     \<lparr>SubjectFacultyPerformance.subjectId = label_of FeedbackSnapshot.subjectId [] g,
      SubjectFacultyPerformance.subjectName = label_of FeedbackSnapshot.subjectName [] g,
      SubjectFacultyPerformance.facultyId = label_of FeedbackSnapshot.facultyId [] g,
      SubjectFacultyPerformance.facultyName = label_of FeedbackSnapshot.facultyName [] g,
      SubjectFacultyPerformance.averageRating = mean_number (ratings g),
      SubjectFacultyPerformance.responseCount = length (ratings g)\<rparr>"

text \<open>
  Modelled from the spec: \<open>processSubjectFacultyPerformance\<close> is missing. A mean and a count
  for each pair of a subject and a faculty.
\<close>

definition processSubjectFacultyPerformance ::
  "FeedbackSnapshot list \<Rightarrow> SubjectFacultyPerformance list" where
  "processSubjectFacultyPerformance snapshots =
     (let pair = (\<lambda>x. (FeedbackSnapshot.subjectId x, FeedbackSnapshot.facultyId x)) in
      map (\<lambda>k. subject_faculty_row (group_of pair k snapshots)) (keys_of pair snapshots))"

definition faculty_breakdown :: "FeedbackSnapshot list \<Rightarrow> FacultyBreakdown" where
  "faculty_breakdown g =
     \<lparr>FacultyBreakdown.facultyId = label_of FeedbackSnapshot.facultyId [] g,
      FacultyBreakdown.facultyName = label_of FeedbackSnapshot.facultyName [] g,
      FacultyBreakdown.averageRating = mean_number (ratings g),
      FacultyBreakdown.responseCount = length (ratings g),
      FacultyBreakdown.divisions = keys_of FeedbackSnapshot.divisionName g\<rparr>"

definition division_breakdown :: "FeedbackSnapshot list \<Rightarrow> DivisionBreakdown" where
  "division_breakdown g =
     (let lec = ratings (segment LECTURE g); lab = ratings (segment LAB g) in
      \<lparr>DivisionBreakdown.divisionId = label_of FeedbackSnapshot.divisionId [] g,
       DivisionBreakdown.divisionName = label_of FeedbackSnapshot.divisionName [] g,
       DivisionBreakdown.lectureRating = mean lec,
       DivisionBreakdown.labRating = mean lab,
       DivisionBreakdown.overallRating =
         weighted_mean (mean lec) (length lec) (mean lab) (length lab),
       DivisionBreakdown.responseCount = length (ratings g)\<rparr>)"

definition category_breakdown :: "FeedbackSnapshot list \<Rightarrow> CategoryBreakdown" where
  "category_breakdown g =
     \<lparr>CategoryBreakdown.questionCategoryId = label_of FeedbackSnapshot.questionCategoryId [] g,
      CategoryBreakdown.questionCategoryName =
        label_of FeedbackSnapshot.questionCategoryName [] g,
      CategoryBreakdown.averageRating = mean_number (ratings g)\<rparr>"

text \<open>
  Modelled from the spec: \<open>processSubjectFacultyDetailPerformance\<close> is missing. For one
  subject, the breakdown by faculty, by division and by question category; \<open>null\<close> when no
  snapshot is about that subject.
\<close>

definition processSubjectFacultyDetailPerformance ::
  "FeedbackSnapshot list \<Rightarrow> string \<Rightarrow> SubjectFacultyDetailPerformance option" where
  "processSubjectFacultyDetailPerformance snapshots sid =
     (let g = group_of FeedbackSnapshot.subjectId sid snapshots in
      if g = [] then None
      else Some
        \<lparr>SubjectFacultyDetailPerformance.facultyBreakdown =
           map (\<lambda>k. faculty_breakdown (group_of FeedbackSnapshot.facultyId k g))
             (keys_of FeedbackSnapshot.facultyId g),
         SubjectFacultyDetailPerformance.divisionBreakdown =
           map (\<lambda>k. division_breakdown (group_of FeedbackSnapshot.divisionId k g))
             (keys_of FeedbackSnapshot.divisionId g),
         SubjectFacultyDetailPerformance.categoryBreakdown =
           map (\<lambda>k. category_breakdown (group_of FeedbackSnapshot.questionCategoryId k g))
             (keys_of FeedbackSnapshot.questionCategoryId g)\<rparr>)"

text \<open>
  The distinct values of one attribute, each identifier once, with the label of the first
  snapshot that carries it.
\<close>

definition options_of ::
  "(FeedbackSnapshot \<Rightarrow> string) \<Rightarrow> (FeedbackSnapshot \<Rightarrow> 'v) \<Rightarrow> 'v \<Rightarrow> FeedbackSnapshot list \<Rightarrow>
     (string \<times> 'v) list" where
  "options_of ident lab d snapshots =
     map (\<lambda>k. (k, label_of lab d (group_of ident k snapshots))) (keys_of ident snapshots)"

text \<open>
  Modelled from the spec: \<open>getFilteringOptions\<close> is missing. The distinct academic years,
  departments, semesters, divisions, subjects and faculty of the snapshots. On the empty
  array the spec has every aggregation return an empty list or \<open>null\<close>; the filtering
  options are an object, so they are \<open>null\<close> there.
\<close>

definition getFilteringOptions :: "FeedbackSnapshot list \<Rightarrow> FilteringOptions option" where
  "getFilteringOptions snapshots =
     (if snapshots = [] then None
      else Some
        \<lparr>FilteringOptions.academicYears =
           options_of FeedbackSnapshot.academicYearId FeedbackSnapshot.academicYearString []
             snapshots,
         FilteringOptions.departments =
           options_of FeedbackSnapshot.departmentId FeedbackSnapshot.departmentName [] snapshots,
         FilteringOptions.semesters =
           options_of FeedbackSnapshot.semesterId FeedbackSnapshot.semesterNumber 0 snapshots,
         FilteringOptions.divisions =
           options_of FeedbackSnapshot.divisionId FeedbackSnapshot.divisionName [] snapshots,
         FilteringOptions.subjects =
           options_of FeedbackSnapshot.subjectId FeedbackSnapshot.subjectName [] snapshots,
         FilteringOptions.faculty =
           options_of FeedbackSnapshot.facultyId FeedbackSnapshot.facultyName [] snapshots\<rparr>)"

section \<open>The processed-analytics hook (src/hooks/useAnalyticsData.ts)\<close>

text \<open>
  Modelled from the spec: the interface \<open>CompleteAnalyticsData\<close> (src/interfaces/analytics.ts
  is missing). It is the data the query returns; the hook tests whether \<open>feedbackSnapshots\<close>
  is there and reads no other member of it.
\<close>

record CompleteAnalyticsData =
  feedbackSnapshots :: "FeedbackSnapshot list option"

text \<open>
  \<open>ProcessedAnalyticsData\<close>. The object the hook builds when there is no data also has a
  member \<open>semesterTrends\<close> (an empty array) that the interface does not declare; the object it
  builds from snapshots does not have it.
\<close>

record ProcessedAnalyticsData =
  overallStats :: "OverallStats option"
  subjectRatings :: "SubjectRating list"
  semesterTrends :: "unit list option"
  divisionComparisons :: "DivisionComparison list"
  facultyPerformance :: "FacultyPerformance list"
  lectureLabComparison :: "LectureLabComparison option"
  filteringOptions :: "FilteringOptions option"
  rawSnapshots :: "FeedbackSnapshot list"
  academicYearDepartmentTrends :: "AcademicYearDepartmentTrend list"
  academicYearSemesterTrends :: "AcademicYearSemesterTrend list"
  academicYearDivisionPerformance :: "AcademicYearDivisionTrend list"
  batchComparisons :: "DivisionComparison list"
  subjectFacultyPerformance :: "SubjectFacultyPerformance list"
  subjectFacultyDetailPerformance :: "SubjectFacultyDetailPerformance option"

text \<open>
  \<^verbatim>\<open>filters.divisionId && typeof filters.divisionId === "string"\<close>: the value is truthy and a
  string, that is, a string other than the empty one.
\<close>

definition selected_string :: "filter_value option \<Rightarrow> bool" where
  "selected_string v = (case v of Some (StringValue s) \<Rightarrow> s \<noteq> [] | _ \<Rightarrow> False)"

definition isSingleDivisionIdSelected :: "AnalyticsFilterParams \<Rightarrow> bool" where
  "isSingleDivisionIdSelected filters = selected_string (filters ''divisionId'')"

definition isSingleSubjectIdSelected :: "AnalyticsFilterParams \<Rightarrow> bool" where
  "isSingleSubjectIdSelected filters = selected_string (filters ''subjectId'')"

definition filteredSnapshotsForBatchComparison ::
  "AnalyticsFilterParams \<Rightarrow> FeedbackSnapshot list \<Rightarrow> FeedbackSnapshot list" where
  "filteredSnapshotsForBatchComparison filters snapshots =
     (if isSingleDivisionIdSelected filters
      then filter (\<lambda>s. Some (StringValue (FeedbackSnapshot.divisionId s)) = filters ''divisionId'')
             snapshots
      else [])"

text \<open>\<^verbatim>\<open>filters.subjectId as string\<close>, read where the value is known to be a string.\<close>

definition string_of_value :: "filter_value option \<Rightarrow> string" where
  "string_of_value v = (case v of Some (StringValue s) \<Rightarrow> s | _ \<Rightarrow> [])"

definition noDataResult :: ProcessedAnalyticsData where
  "noDataResult =
     \<lparr>overallStats = None,
      subjectRatings = [],
      semesterTrends = Some [],
      divisionComparisons = [],
      facultyPerformance = [],
      lectureLabComparison = None,
      filteringOptions = None,
      rawSnapshots = [],
      academicYearDepartmentTrends = [],
      academicYearSemesterTrends = [],
      academicYearDivisionPerformance = [],
      batchComparisons = [],
      subjectFacultyPerformance = [],
      subjectFacultyDetailPerformance = None\<rparr>"

text \<open>
  The body of the \<open>useMemo\<close> callback of \<open>useProcessedAnalytics\<close>, as a function of the filters
  and of the query's data (\<open>None\<close> while there is none). The memo's dependencies are all the
  values the callback reads, so the hook's \<open>data\<close> is this value.
\<close>

definition useProcessedAnalytics ::
  "AnalyticsFilterParams \<Rightarrow> CompleteAnalyticsData option \<Rightarrow> ProcessedAnalyticsData" where
  "useProcessedAnalytics filters rawData =
     (case rawData of
        None \<Rightarrow> noDataResult
      | Some raw \<Rightarrow>
          (case feedbackSnapshots raw of
             None \<Rightarrow> noDataResult
           | Some snapshots \<Rightarrow>
               \<lparr>overallStats = processOverallStats snapshots,
                subjectRatings = processSubjectRatings snapshots,
                semesterTrends = None,
                divisionComparisons = processDivisionComparisons snapshots,
                facultyPerformance = processFacultyPerformance snapshots,
                lectureLabComparison = processLectureLabComparison snapshots,
                filteringOptions = getFilteringOptions snapshots,
                rawSnapshots = snapshots,
                academicYearDepartmentTrends = processAcademicYearDepartmentTrends snapshots,
                academicYearSemesterTrends = processAcademicYearSemesterTrends snapshots,
                academicYearDivisionPerformance = processAcademicYearDivisionTrends snapshots,
                batchComparisons =
                  processDivisionComparisons
                    (filteredSnapshotsForBatchComparison filters snapshots),
                subjectFacultyPerformance = processSubjectFacultyPerformance snapshots,
                subjectFacultyDetailPerformance =
                  (if isSingleSubjectIdSelected filters
                   then processSubjectFacultyDetailPerformance snapshots
                          (string_of_value (filters ''subjectId''))
                   else None)\<rparr>))"

section \<open>The executive dashboard's metrics (src/app/(main)/executive/page.tsx)\<close>

text \<open>
  The performer entries; \<open>ident\<close> is the member \<open>id\<close>. The subject performers carry no
  \<open>trend\<close>.
\<close>

record Performer =
  ident :: string
  name :: string
  rating :: rat
  responses :: nat
  trend :: "js_number option"

datatype priority = High | Medium | Low

record Insight =
  priority :: priority
  title :: template
  description :: template
  action :: "string option"

record DistributionBar =
  label :: string
  "value" :: nat
  color :: string

record SemesterPoint =
  semester :: nat
  rating :: rat
  label :: template

record YearPoint =
  year :: string
  rating :: rat
  responses :: nat

record DepartmentPoint =
  name :: string
  rating :: rat
  responses :: nat

record Metrics =
  healthScore :: rat
  healthTrend :: rat
  responseRate :: int
  totalResponses :: nat
  totalFaculty :: nat
  totalSubjects :: nat
  totalDivisions :: nat
  totalDepartments :: nat
  aboveAvgFaculty :: nat
  aboveAvgSubjects :: nat
  topPerformers :: "Performer list"
  bottomPerformers :: "Performer list"
  insights :: "Insight list"
  facultyDistribution :: "DistributionBar list"
  semesterTrends :: "SemesterPoint list"
  subjectPerformers :: "Performer list"
  academicYearTrends :: "YearPoint list"
  departmentComparison :: "DepartmentPoint list"

text \<open>The value returned while \<open>processedData\<close> or \<open>rawData\<close> is missing.\<close>

definition emptyMetrics :: Metrics where
  "emptyMetrics =
     \<lparr>healthScore = 0, healthTrend = 0, responseRate = 0, Metrics.totalResponses = 0,
      totalFaculty = 0, totalSubjects = 0, totalDivisions = 0, totalDepartments = 0,
      aboveAvgFaculty = 0, aboveAvgSubjects = 0, topPerformers = [], bottomPerformers = [],
      insights = [], facultyDistribution = [], Metrics.semesterTrends = [],
      subjectPerformers = [], academicYearTrends = [], departmentComparison = []\<rparr>"

text \<open>
  The constants of the callback, one definition each, under the names they have in the
  source. \<^verbatim>\<open>stats?.x || 0\<close> reads a member of the overall statistics, which may be \<open>null\<close>.
\<close>

definition stat_or_zero :: "(OverallStats \<Rightarrow> nat) \<Rightarrow> OverallStats option \<Rightarrow> nat" where
  "stat_or_zero f stats = (case stats of None \<Rightarrow> 0 | Some st \<Rightarrow> f st)"

definition healthScore_of :: "OverallStats option \<Rightarrow> rat" where
  "healthScore_of stats =
     (case stats of None \<Rightarrow> 0 | Some st \<Rightarrow> or_zero (OverallStats.averageRating st))"

definition avgFacultyRating :: "FacultyPerformance list \<Rightarrow> rat" where
  "avgFacultyRating facultyData =
     (if length facultyData > 0
      then foldl (\<lambda>a b. a + FacultyPerformance.averageRating b) 0 facultyData
             / of_nat (length facultyData)
      else 0)"

definition aboveAvgFaculty_of :: "FacultyPerformance list \<Rightarrow> nat" where
  "aboveAvgFaculty_of facultyData =
     length (filter (\<lambda>f. FacultyPerformance.averageRating f \<ge> avgFacultyRating facultyData)
       facultyData)"

definition validSubjectRatings :: "SubjectRating list \<Rightarrow> SubjectRating list" where
  "validSubjectRatings subjectData =
     filter (\<lambda>s. SubjectRating.overallAverageRating s \<noteq> None) subjectData"

definition avgSubjectRating :: "SubjectRating list \<Rightarrow> rat" where
  "avgSubjectRating subjectData =
     (if length (validSubjectRatings subjectData) > 0
      then foldl (\<lambda>a b. a + or_zero (SubjectRating.overallAverageRating b)) 0
             (validSubjectRatings subjectData)
             / of_nat (length (validSubjectRatings subjectData))
      else 0)"

definition aboveAvgSubjects_of :: "SubjectRating list \<Rightarrow> nat" where
  "aboveAvgSubjects_of subjectData =
     length (filter (\<lambda>s. or_zero (SubjectRating.overallAverageRating s)
                            \<ge> avgSubjectRating subjectData) subjectData)"

text \<open>
  \<^verbatim>\<open>[...facultyData].sort((a, b) => b.averageRating - a.averageRating)\<close>: a copy, sorted by
  falling rating. The sort of JavaScript is stable, as \<open>sort_key\<close> is.
\<close>

definition sortedFaculty :: "FacultyPerformance list \<Rightarrow> FacultyPerformance list" where
  "sortedFaculty facultyData = sort_key (\<lambda>f. - FacultyPerformance.averageRating f) facultyData"

definition performer_trend :: "rat \<Rightarrow> rat \<Rightarrow> js_number" where
  "performer_trend r avg = js_toFixed_number 1 (js_scale (js_div (r - avg) avg) 100)"

definition faculty_performer :: "rat \<Rightarrow> FacultyPerformance \<Rightarrow> Performer" where
  "faculty_performer avg f =
     \<lparr>ident = FacultyPerformance.facultyId f,
      Performer.name = FacultyPerformance.facultyName f,
      Performer.rating = FacultyPerformance.averageRating f,
      Performer.responses = FacultyPerformance.totalResponses f,
      trend = Some (performer_trend (FacultyPerformance.averageRating f) avg)\<rparr>"

definition topPerformers_of :: "FacultyPerformance list \<Rightarrow> Performer list" where
  "topPerformers_of facultyData =
     map (faculty_performer (avgFacultyRating facultyData)) (take 5 (sortedFaculty facultyData))"

text \<open>\<^verbatim>\<open>slice(-5)\<close> keeps the last five elements, or all of them when there are fewer.\<close>

definition slice_last :: "nat \<Rightarrow> 'a list \<Rightarrow> 'a list" where
  "slice_last n xs = drop (length xs - n) xs"

definition bottomPerformers_of :: "FacultyPerformance list \<Rightarrow> Performer list" where
  "bottomPerformers_of facultyData =
     map (faculty_performer (avgFacultyRating facultyData))
       (rev (slice_last 5 (sortedFaculty facultyData)))"

definition sortedSubjects :: "SubjectRating list \<Rightarrow> SubjectRating list" where
  "sortedSubjects subjectData =
     sort_key (\<lambda>s. - or_zero (SubjectRating.overallAverageRating s))
       (filter (\<lambda>s. SubjectRating.overallAverageRating s \<noteq> None) subjectData)"

definition subjectPerformers_of :: "SubjectRating list \<Rightarrow> Performer list" where
  "subjectPerformers_of subjectData =
     map (\<lambda>s. \<lparr>ident = SubjectRating.subjectId s,
                Performer.name = SubjectRating.subjectName s,
                Performer.rating = or_zero (SubjectRating.overallAverageRating s),
                Performer.responses = SubjectRating.totalOverallResponses s,
                trend = None\<rparr>)
       (take 5 (sortedSubjects subjectData))"

definition excellent :: "FacultyPerformance list \<Rightarrow> nat" where
  "excellent facultyData =
     length (filter (\<lambda>f. FacultyPerformance.averageRating f \<ge> 9 / 2) facultyData)"

definition good :: "FacultyPerformance list \<Rightarrow> nat" where
  "good facultyData =
     length (filter (\<lambda>f. FacultyPerformance.averageRating f \<ge> 4
                          \<and> FacultyPerformance.averageRating f < 9 / 2) facultyData)"

definition average :: "FacultyPerformance list \<Rightarrow> nat" where
  "average facultyData =
     length (filter (\<lambda>f. FacultyPerformance.averageRating f \<ge> 7 / 2
                          \<and> FacultyPerformance.averageRating f < 4) facultyData)"

definition needsWork :: "FacultyPerformance list \<Rightarrow> nat" where
  "needsWork facultyData =
     length (filter (\<lambda>f. FacultyPerformance.averageRating f < 7 / 2) facultyData)"

definition facultyDistribution_of :: "FacultyPerformance list \<Rightarrow> DistributionBar list" where
  "facultyDistribution_of facultyData =
     [\<lparr>DistributionBar.label = ''Excellent (4.5+)'', value = excellent facultyData,
       color = ''bg-positive-main''\<rparr>,
      \<lparr>DistributionBar.label = ''Good (4.0-4.5)'', value = good facultyData,
       color = ''bg-highlight1-main''\<rparr>,
      \<lparr>DistributionBar.label = ''Average (3.5-4.0)'', value = average facultyData,
       color = ''bg-warning-main''\<rparr>,
      \<lparr>DistributionBar.label = ''Needs Improvement (<3.5)'', value = needsWork facultyData,
       color = ''bg-negative-main''\<rparr>]"

definition semesterTrends_of :: "AcademicYearSemesterTrend list \<Rightarrow> SemesterPoint list" where
  "semesterTrends_of trends =
     sort_key semester
       (map (\<lambda>t. let latestData = last_elem (AcademicYearSemesterTrend.academicYearData t) in
              \<lparr>semester = AcademicYearSemesterTrend.semesterNumber t,
               SemesterPoint.rating =
                 (case latestData of None \<Rightarrow> 0 | Some d \<Rightarrow> AcademicYearData.averageRating d),
               SemesterPoint.label =
                 [Lit ''Sem '',
                  ShowNumber (of_nat (AcademicYearSemesterTrend.semesterNumber t))]\<rparr>)
          trends)"

text \<open>
  One point per academic year: the mean of the department cells weighted by their response
  counts, put through \<^verbatim>\<open>Number(avgRating.toFixed(2))\<close>.
\<close>

definition totalRating :: "DepartmentData list \<Rightarrow> rat" where
  "totalRating cells =
     foldl (\<lambda>sum d. sum + DepartmentData.averageRating d * of_nat (DepartmentData.responseCount d))
       0 cells"

definition totalResponses_of :: "DepartmentData list \<Rightarrow> nat" where
  "totalResponses_of cells = foldl (\<lambda>sum d. sum + DepartmentData.responseCount d) 0 cells"

definition avgRating :: "DepartmentData list \<Rightarrow> rat" where
  "avgRating cells =
     (if totalResponses_of cells > 0 then totalRating cells / of_nat (totalResponses_of cells)
      else 0)"

definition year_point :: "AcademicYearDepartmentTrend \<Rightarrow> YearPoint" where
  "year_point t =
     \<lparr>year = AcademicYearDepartmentTrend.academicYearString t,
      YearPoint.rating = toFixed_number 2 (avgRating (departmentData t)),
      YearPoint.responses = totalResponses_of (departmentData t)\<rparr>"

definition academicYearTrends_of :: "AcademicYearDepartmentTrend list \<Rightarrow> YearPoint list" where
  "academicYearTrends_of trends = map year_point trends"

definition departmentComparison_of ::
  "AcademicYearDepartmentTrend list \<Rightarrow> DepartmentPoint list" where
  "departmentComparison_of trends =
     (case last_elem trends of
        None \<Rightarrow> []
      | Some latestYearTrend \<Rightarrow>
          map (\<lambda>d. \<lparr>DepartmentPoint.name = DepartmentData.departmentName d,
                     DepartmentPoint.rating = DepartmentData.averageRating d,
                     DepartmentPoint.responses = DepartmentData.responseCount d\<rparr>)
            (departmentData latestYearTrend))"

definition healthTrend_of :: "YearPoint list \<Rightarrow> rat" where
  "healthTrend_of trends =
     (if length trends \<ge> 2
      then (let current = YearPoint.rating (trends ! (length trends - 1));
                previous = YearPoint.rating (trends ! (length trends - 2)) in
            if previous > 0 then toFixed_number 1 ((current - previous) / previous * 100) else 0)
      else 0)"

text \<open>The response rate: ten responses for each student count as 100 percent.\<close>

definition responseRate_of :: "OverallStats option \<Rightarrow> int" where
  "responseRate_of stats =
     (let uniqueStudents = stat_or_zero OverallStats.uniqueStudents stats in
      if uniqueStudents > 0
      then min 100 (math_round (of_nat (stat_or_zero OverallStats.totalResponses stats)
                                 / of_nat uniqueStudents * 10))
      else 0)"

text \<open>
  The insights are pushed one after the other, each under its own test; the list of a test
  that fails is empty.
\<close>

definition attention_insight :: "FacultyPerformance list \<Rightarrow> Insight list" where
  "attention_insight facultyData =
     (if needsWork facultyData > 0
      then (let percentage =
                  math_round (of_nat (needsWork facultyData) / of_nat (length facultyData) * 100) in
            [\<lparr>priority = (if needsWork facultyData > 3 then High else Medium),
              title = [ShowNumber (of_nat (needsWork facultyData)),
                       Lit '' Faculty Need Attention''],
              description =
                [ShowNumber (of_int percentage),
                 Lit ''% of faculty have ratings below 3.5. Consider mentoring programs.''],
              action = Some ''View Details''\<rparr>])
      else [])"

definition decline_insight :: "rat \<Rightarrow> Insight list" where
  "decline_insight trendValue =
     (if trendValue < - 5
      then [\<lparr>priority = High,
             title = [Lit ''Declining Performance Trend''],
             description =
               [Lit ''Overall ratings dropped by '', ShowFixed 1 \<bar>trendValue\<bar>,
                Lit ''% from previous period.''],
             action = Some ''Analyze Causes''\<rparr>]
      else [])"

definition strong_insight :: "FacultyPerformance list \<Rightarrow> Insight list" where
  "strong_insight facultyData =
     (if of_nat (excellent facultyData) > (of_nat (length facultyData) :: rat) * (3 / 10)
         \<and> length facultyData > 0
      then [\<lparr>priority = Low,
             title = [Lit ''Strong Faculty Performance''],
             description =
               [ShowNumber (of_int (math_round
                  (of_nat (excellent facultyData) / of_nat (length facultyData) * 100))),
                Lit ''% of faculty have excellent ratings (4.5+).''],
             action = Some ''Recognize Top Performers''\<rparr>]
      else [])"

definition volume_insight :: "OverallStats option \<Rightarrow> Insight list" where
  "volume_insight stats =
     (case stats of
        None \<Rightarrow> []
      | Some st \<Rightarrow>
          if OverallStats.totalResponses st \<noteq> 0 \<and> OverallStats.totalResponses st < 50
          then [\<lparr>priority = Medium,
                 title = [Lit ''Low Response Volume''],
                 description =
                   [Lit ''Only '', ShowNumber (of_nat (OverallStats.totalResponses st)),
                    Lit '' responses collected. Consider extending feedback window.''],
                 action = Some ''View Response Status''\<rparr>]
          else [])"

text \<open>
  \<^verbatim>\<open>lowDept?.name || 'A department'\<close>: the name of the department found, unless none was
  found or its name is empty.
\<close>

definition lowDept_name :: "DepartmentPoint option \<Rightarrow> string" where
  "lowDept_name lowDept =
     (case lowDept of
        None \<Rightarrow> ''A department''
      | Some d \<Rightarrow> if DepartmentPoint.name d = [] then ''A department'' else DepartmentPoint.name d)"

definition gap_insight :: "DepartmentPoint list \<Rightarrow> Insight list" where
  "gap_insight deptPoints =
     (case map DepartmentPoint.rating deptPoints of
        r # r' # rs \<Rightarrow>
          (let maxRating = fold max (r' # rs) r;
               minRating = fold min (r' # rs) r in
           if maxRating - minRating > 1
           then [\<lparr>priority = Medium,
                  title = [Lit ''Department Performance Gap''],
                  description =
                    [Lit (lowDept_name
                            (find (\<lambda>d. DepartmentPoint.rating d = minRating)
                               deptPoints)),
                     Lit '' is '', ShowFixed 1 (maxRating - minRating),
                     Lit '' points below top performer.''],
                  action = Some ''Compare Departments''\<rparr>]
           else [])
      | _ \<Rightarrow> [])"

definition onTrack_insight :: Insight where
  "onTrack_insight =
     \<lparr>priority = Low,
      title = [Lit ''Performance On Track''],
      description = [Lit ''All metrics are within healthy ranges. Keep up the good work!''],
      action = None\<rparr>"

definition insights_of ::
  "OverallStats option \<Rightarrow> FacultyPerformance list \<Rightarrow> rat \<Rightarrow> DepartmentPoint list \<Rightarrow>
     Insight list" where
  "insights_of stats facultyData trendValue deptPoints =
     (let pushed = attention_insight facultyData @ decline_insight trendValue
                   @ strong_insight facultyData @ volume_insight stats
                   @ gap_insight deptPoints in
      if length pushed = 0 then [onTrack_insight] else pushed)"

text \<open>
  The \<open>useMemo\<close> callback that computes \<open>metrics\<close>, as a function of the two values it reads.
\<close>

definition metrics ::
  "ProcessedAnalyticsData option \<Rightarrow> CompleteAnalyticsData option \<Rightarrow> Metrics" where
  "metrics processedData rawData =
     (case processedData of
        None \<Rightarrow> emptyMetrics
      | Some pd \<Rightarrow>
          (case rawData of
             None \<Rightarrow> emptyMetrics
           | Some raw \<Rightarrow>
               (let stats = overallStats pd;
                    facultyData = facultyPerformance pd;
                    subjectData = subjectRatings pd;
                    divisionData = divisionComparisons pd;
                    yearTrends = academicYearTrends_of (academicYearDepartmentTrends pd);
                    deptPoints = departmentComparison_of (academicYearDepartmentTrends pd)
                in
                \<lparr>healthScore = healthScore_of stats,
                 healthTrend = healthTrend_of yearTrends,
                 responseRate = responseRate_of stats,
                 Metrics.totalResponses = stat_or_zero OverallStats.totalResponses stats,
                 totalFaculty = length facultyData,
                 totalSubjects = length subjectData,
                 totalDivisions = length divisionData,
                 totalDepartments = stat_or_zero OverallStats.uniqueDepartments stats,
                 aboveAvgFaculty = aboveAvgFaculty_of facultyData,
                 aboveAvgSubjects = aboveAvgSubjects_of subjectData,
                 topPerformers = topPerformers_of facultyData,
                 bottomPerformers = bottomPerformers_of facultyData,
                 insights =
                   insights_of stats facultyData (healthTrend_of yearTrends) deptPoints,
                 facultyDistribution = facultyDistribution_of facultyData,
                 Metrics.semesterTrends = semesterTrends_of (academicYearSemesterTrends pd),
                 subjectPerformers = subjectPerformers_of subjectData,
                 academicYearTrends = yearTrends,
                 departmentComparison = deptPoints\<rparr>)))"



section \<open>Sample inputs\<close>

text \<open>A filter object with four filters set.\<close>

definition ex_filters :: AnalyticsFilterParams where
  "ex_filters =
     [''academicYearId'' \<mapsto> StringValue ''y1'', ''departmentId'' \<mapsto> StringValue ''d1'',
      ''semesterId'' \<mapsto> StringValue ''s1'', ''divisionId'' \<mapsto> StringValue ''v1'']"



definition ex_raw :: CompleteAnalyticsData where
  "ex_raw = \<lparr>feedbackSnapshots = Some []\<rparr>"


text \<open>Overall statistics with 37 responses from 5 students.\<close>

definition ex_stats :: OverallStats where
  "ex_stats =
     \<lparr>OverallStats.totalResponses = 37, OverallStats.averageRating = Some 4,
      uniqueSubjects = 3, uniqueFaculties = 2, uniqueStudents = 5, uniqueDivisions = 1,
      uniqueDepartments = 1\<rparr>"

text \<open>
  Three responses of different students to one subject and one faculty, rated 4, 5 and not
  at all; the third is a lab session in another division.
\<close>

definition ex_snapshot :: FeedbackSnapshot where
  "ex_snapshot =
     \<lparr>studentId = ''st1'', FeedbackSnapshot.subjectId = ''CS101'',
      FeedbackSnapshot.subjectName = ''Algorithms'', FeedbackSnapshot.facultyId = ''F1'',
      FeedbackSnapshot.facultyName = ''Rao'', FeedbackSnapshot.divisionId = ''v1'',
      FeedbackSnapshot.divisionName = ''A'', FeedbackSnapshot.departmentId = ''d1'',
      FeedbackSnapshot.departmentName = ''CE'', FeedbackSnapshot.academicYearId = ''y1'',
      FeedbackSnapshot.academicYearString = ''2024-25'', semesterId = ''s1'',
      FeedbackSnapshot.semesterNumber = 3, lectureType = LECTURE,
      FeedbackSnapshot.rating = Some 4, FeedbackSnapshot.questionCategoryId = ''q1'',
      FeedbackSnapshot.questionCategoryName = ''Clarity''\<rparr>"

definition ex_snapshots :: "FeedbackSnapshot list" where
  "ex_snapshots =
     [ex_snapshot,
      ex_snapshot\<lparr>studentId := ''st2'', FeedbackSnapshot.rating := Some 5\<rparr>,
      ex_snapshot\<lparr>studentId := ''st3'', FeedbackSnapshot.divisionId := ''v2'',
        FeedbackSnapshot.divisionName := ''B'', lectureType := LAB,
        FeedbackSnapshot.rating := None\<rparr>]"

definition ex_full_raw :: CompleteAnalyticsData where
  "ex_full_raw = \<lparr>feedbackSnapshots = Some ex_snapshots\<rparr>"





text \<open>
  Every view of the processed data is empty: the list-valued ones are the empty list, the
  others are \<open>null\<close>.
\<close>

definition all_views_empty :: "ProcessedAnalyticsData \<Rightarrow> bool" where
  "all_views_empty r =
     (overallStats r = None \<and> subjectRatings r = [] \<and> divisionComparisons r = [] \<and>
      facultyPerformance r = [] \<and> lectureLabComparison r = None \<and> filteringOptions r = None \<and>
      rawSnapshots r = [] \<and> academicYearDepartmentTrends r = [] \<and>
      academicYearSemesterTrends r = [] \<and> academicYearDivisionPerformance r = [] \<and>
      batchComparisons r = [] \<and> subjectFacultyPerformance r = [] \<and>
      subjectFacultyDetailPerformance r = None)"

text \<open>A subject filter that names a subject of the snapshots, and one that names none.\<close>

definition ex_subject_filters :: AnalyticsFilterParams where
  "ex_subject_filters = [''subjectId'' \<mapsto> StringValue ''CS101'']"

definition ex_missing_filters :: AnalyticsFilterParams where
  "ex_missing_filters = [''subjectId'' \<mapsto> StringValue ''nonexistent-id'']"

section \<open>CSV escaping: the round trip\<close>

lemma collapse_cons_other: "c \<noteq> dquote \<Longrightarrow> collapse_quotes (c # cs) = c # collapse_quotes cs"
  by (cases cs) simp_all

lemma collapse_replace: "collapse_quotes (replace_quotes v) = v"
  by (induction v) (simp_all add: collapse_cons_other)

lemma replace_quotes_length: "length v \<le> length (replace_quotes v)"
  by (induction v) auto

text \<open>
  C10. \<open>escapeCSV v\<close> is \<open>v\<close> exactly when \<open>v\<close> has no comma, double quote, newline or carriage
  return; otherwise it is \<open>v\<close> between two double quotes with every double quote of \<open>v\<close>
  doubled; and reading the escaped field (outer quotes stripped, doubled quotes collapsed)
  gives \<open>v\<close> back.
\<close>

theorem escapeCSV_roundtrip:
  "(escapeCSV v = v \<longleftrightarrow>
      \<not> (comma \<in> set v \<or> dquote \<in> set v \<or> newline \<in> set v \<or> cr \<in> set v)) \<and>
   (comma \<in> set v \<or> dquote \<in> set v \<or> newline \<in> set v \<or> cr \<in> set v \<longrightarrow>
      escapeCSV v = [dquote] @ replace_quotes v @ [dquote]) \<and>
   parse_csv_field (escapeCSV v) = v"
proof -
  let ?special = "comma \<in> set v \<or> dquote \<in> set v \<or> newline \<in> set v \<or> cr \<in> set v"
  have wrapped: "escapeCSV v = dquote # replace_quotes v @ [dquote]" if "?special"
    using that by (auto simp: escapeCSV_def str_includes_def)
  have plain: "escapeCSV v = v" if "\<not> ?special"
    using that by (auto simp: escapeCSV_def str_includes_def)
  have longer: "escapeCSV v \<noteq> v" if "?special"
  proof -
    have "length v < length (escapeCSV v)"
      using wrapped [OF that] replace_quotes_length [of v] by simp
    then show ?thesis by auto
  qed
  have rt: "parse_csv_field (escapeCSV v) = v"
  proof (cases "?special")
    case True
    then show ?thesis
      by (simp add: wrapped parse_csv_field_def collapse_replace)
  next
    case False
    then have "parse_csv_field v = v"
      by (cases v) (auto simp: parse_csv_field_def)
    with plain [OF False] show ?thesis by simp
  qed
  from wrapped plain longer rt show ?thesis by auto
qed

theorem escapeCSV_roundtrip_witness:
  "comma \<in> set ''a,b'' \<and> escapeCSV ''a,b'' \<noteq> ''a,b'' \<and>
   escapeCSV ''a,b'' = [dquote] @ replace_quotes ''a,b'' @ [dquote] \<and>
   parse_csv_field (escapeCSV ''a,b'') = ''a,b''"
proof -
  have h: "comma \<in> set ''a,b''" by (simp add: comma_def)
  show ?thesis using h escapeCSV_roundtrip [of "''a,b''"] by blast
qed

section \<open>The drill-down panel: the open panel has its identifier\<close>

lemma drill_step_inv: "panel_has_id (drill_step s a)"
  by (cases a)
    (simp_all add: panel_has_id_def openSubjectPanel_def openFacultyPanel_def
      openDivisionPanel_def closePanel_def navigateToSubject_def navigateToFaculty_def
      navigateToDivision_def initialDrillDownState_def)

lemma drill_run_inv: "panel_has_id (drill_run as)"
proof (cases as rule: rev_cases)
  case Nil
  then show ?thesis by (simp add: drill_run_def panel_has_id_def initialDrillDownState_def)
next
  case (snoc bs a)
  then show ?thesis by (simp add: drill_run_def drill_step_inv)
qed

text \<open>
  C8. In the state reached from \<open>initialDrillDownState\<close> by any sequence of the seven calls,
  an active subject panel has a subject identifier, an active faculty panel a faculty
  identifier and an active division panel a division identifier; and a \<open>closePanel\<close> after
  any such sequence gives \<open>initialDrillDownState\<close>, in which the panel, every identifier and
  every name is \<open>null\<close>.
\<close>

theorem drill_down_panel_invariant:
  "(activePanel (drill_run as) = Some Subject \<longrightarrow> DrillDownState.subjectId (drill_run as) \<noteq> None) \<and>
   (activePanel (drill_run as) = Some Faculty \<longrightarrow> DrillDownState.facultyId (drill_run as) \<noteq> None) \<and>
   (activePanel (drill_run as) = Some Division \<longrightarrow>
      DrillDownState.divisionId (drill_run as) \<noteq> None) \<and>
   drill_run (as @ [ClosePanel]) = initialDrillDownState \<and>
   initialDrillDownState =
     \<lparr>activePanel = None, DrillDownState.subjectId = None, DrillDownState.subjectName = None,
      DrillDownState.facultyId = None, DrillDownState.facultyName = None,
      DrillDownState.divisionId = None, DrillDownState.divisionName = None\<rparr>"
  using drill_run_inv [of as]
  by (simp add: panel_has_id_def drill_run_def closePanel_def initialDrillDownState_def)

theorem drill_down_panel_invariant_witness:
  "activePanel (drill_run [OpenSubjectPanel ''s1'' ''Maths'', NavigateToFaculty ''f1'' ''Rao''])
     = Some Faculty \<and>
   DrillDownState.facultyId
     (drill_run [OpenSubjectPanel ''s1'' ''Maths'', NavigateToFaculty ''f1'' ''Rao'']) \<noteq> None"
proof -
  have h: "activePanel (drill_run [OpenSubjectPanel ''s1'' ''Maths'', NavigateToFaculty ''f1'' ''Rao''])
     = Some Faculty"
    by (simp add: drill_run_def openSubjectPanel_def navigateToFaculty_def)
  show ?thesis
    using h drill_down_panel_invariant
      [of "[OpenSubjectPanel ''s1'' ''Maths'', NavigateToFaculty ''f1'' ''Rao'']"]
    by blast
qed

section \<open>The filter cascade: what a change leaves alone\<close>

text \<open>
  C9. Changing \<open>academicYearId\<close> sets it to the new value, sets \<open>departmentId\<close> and
  \<open>semesterId\<close> to \<open>undefined\<close> and leaves every other filter as it was; changing
  \<open>departmentId\<close> sets it, sets \<open>semesterId\<close> to \<open>undefined\<close> and leaves every other filter
  (\<open>academicYearId\<close> among them) as it was; changing any other key changes that key only.
\<close>

theorem handleFilterChange_frame:
  "handleFilterChange filters ''academicYearId'' v ''academicYearId'' = map_option StringValue v \<and>
   handleFilterChange filters ''academicYearId'' v ''departmentId'' = None \<and>
   handleFilterChange filters ''academicYearId'' v ''semesterId'' = None \<and>
   (\<forall>k. k \<noteq> ''academicYearId'' \<and> k \<noteq> ''departmentId'' \<and> k \<noteq> ''semesterId'' \<longrightarrow>
      handleFilterChange filters ''academicYearId'' v k = filters k) \<and>
   handleFilterChange filters ''departmentId'' v ''departmentId'' = map_option StringValue v \<and>
   handleFilterChange filters ''departmentId'' v ''semesterId'' = None \<and>
   (\<forall>k. k \<noteq> ''departmentId'' \<and> k \<noteq> ''semesterId'' \<longrightarrow>
      handleFilterChange filters ''departmentId'' v k = filters k) \<and>
   (key \<noteq> ''academicYearId'' \<and> key \<noteq> ''departmentId'' \<longrightarrow>
      handleFilterChange filters key v key = map_option StringValue v \<and>
      (\<forall>k. k \<noteq> key \<longrightarrow> handleFilterChange filters key v k = filters k))"
  by (simp add: handleFilterChange_def)

theorem handleFilterChange_frame_witness:
  "handleFilterChange ex_filters ''academicYearId'' (Some ''y2'') ''divisionId''
     = Some (StringValue ''v1'') \<and>
   handleFilterChange ex_filters ''departmentId'' (Some ''d2'') ''academicYearId''
     = Some (StringValue ''y1'') \<and>
   handleFilterChange ex_filters ''subjectId'' (Some ''m1'') ''subjectId''
     = Some (StringValue ''m1'') \<and>
   handleFilterChange ex_filters ''subjectId'' (Some ''m1'') ''semesterId''
     = Some (StringValue ''s1'')"
proof -
  have a: "''divisionId'' \<noteq> ''academicYearId'' \<and> ''divisionId'' \<noteq> ''departmentId''
      \<and> ''divisionId'' \<noteq> ''semesterId''" by simp
  have b: "''academicYearId'' \<noteq> ''departmentId'' \<and> ''academicYearId'' \<noteq> ''semesterId''" by simp
  have c: "''subjectId'' \<noteq> ''academicYearId'' \<and> ''subjectId'' \<noteq> ''departmentId''" by simp
  have d: "''semesterId'' \<noteq> ''subjectId''" by simp
  have e: "ex_filters ''divisionId'' = Some (StringValue ''v1'')"
    "ex_filters ''academicYearId'' = Some (StringValue ''y1'')"
    "ex_filters ''semesterId'' = Some (StringValue ''s1'')"
    by (simp_all add: ex_filters_def)
  from handleFilterChange_frame [of ex_filters "Some ''y2''" "''subjectId''"] a e
  have 1: "handleFilterChange ex_filters ''academicYearId'' (Some ''y2'') ''divisionId''
     = Some (StringValue ''v1'')" by metis
  from handleFilterChange_frame [of ex_filters "Some ''d2''" "''subjectId''"] b e
  have 2: "handleFilterChange ex_filters ''departmentId'' (Some ''d2'') ''academicYearId''
     = Some (StringValue ''y1'')" by metis
  from handleFilterChange_frame [of ex_filters "Some ''m1''" "''subjectId''"] c d e
  have 3: "handleFilterChange ex_filters ''subjectId'' (Some ''m1'') ''subjectId''
     = Some (StringValue ''m1'') \<and>
   handleFilterChange ex_filters ''subjectId'' (Some ''m1'') ''semesterId''
     = Some (StringValue ''s1'')" by (metis option.simps(9))
  from 1 2 3 show ?thesis by blast
qed

section \<open>The yearly rating and the response rate\<close>













lemma math_round_nonneg: "0 \<le> x \<Longrightarrow> 0 \<le> math_round x"
  by (simp add: math_round_def)

lemma responseRate_of_range: "0 \<le> responseRate_of stats \<and> responseRate_of stats \<le> 100"
  by (simp add: responseRate_of_def Let_def math_round_nonneg)

lemma metrics_responseRate:
  "responseRate (metrics (Some pd) (Some raw)) = responseRate_of (overallStats pd)"
  by (simp add: metrics_def Let_def)

text \<open>
  C4. With overall statistics whose \<open>uniqueStudents\<close> is positive, the response rate is
  \<open>min(100, round(totalResponses * 10 / uniqueStudents))\<close>; it is 0 when \<open>uniqueStudents\<close> is 0
  or when there are no overall statistics; and it lies between 0 and 100 whatever the
  inputs of the metrics are.
\<close>

theorem responseRate_capped:
  "(overallStats pd = Some st \<and> OverallStats.uniqueStudents st > 0 \<longrightarrow>
      responseRate (metrics (Some pd) (Some raw)) =
        min 100 (math_round (of_nat (OverallStats.totalResponses st * 10)
                             / of_nat (OverallStats.uniqueStudents st)))) \<and>
   (overallStats pd = Some st \<and> OverallStats.uniqueStudents st = 0 \<longrightarrow>
      responseRate (metrics (Some pd) (Some raw)) = 0) \<and>
   (overallStats pd = None \<longrightarrow> responseRate (metrics (Some pd) (Some raw)) = 0) \<and>
   0 \<le> responseRate (metrics processedData rawData) \<and>
   responseRate (metrics processedData rawData) \<le> 100"
proof -
  have range: "0 \<le> responseRate (metrics processedData rawData) \<and>
      responseRate (metrics processedData rawData) \<le> 100"
  proof (cases processedData)
    case None
    then show ?thesis by (simp add: metrics_def emptyMetrics_def)
  next
    case (Some p)
    show ?thesis
    proof (cases rawData)
      case None
      with Some show ?thesis by (simp add: metrics_def emptyMetrics_def)
    next
      case (Some r)
      with \<open>processedData = Some p\<close> show ?thesis
        using responseRate_of_range [of "overallStats p"] by (simp add: metrics_responseRate)
    qed
  qed
  show ?thesis
    using range
    by (simp add: metrics_responseRate responseRate_of_def stat_or_zero_def Let_def)
qed

theorem responseRate_capped_witness:
  "overallStats (noDataResult\<lparr>overallStats := Some ex_stats\<rparr>) = Some ex_stats \<and>
   OverallStats.uniqueStudents ex_stats > 0 \<and>
   responseRate (metrics (Some (noDataResult\<lparr>overallStats := Some ex_stats\<rparr>)) (Some ex_raw)) = 74"
proof -
  have h: "overallStats (noDataResult\<lparr>overallStats := Some ex_stats\<rparr>) = Some ex_stats \<and>
     OverallStats.uniqueStudents ex_stats > 0"
    by (simp add: ex_stats_def)
  have v: "min 100 (math_round (of_nat (OverallStats.totalResponses ex_stats * 10)
                             / of_nat (OverallStats.uniqueStudents ex_stats))) = 74"
    by code_simp
  show ?thesis
    using h v responseRate_capped
      [of "noDataResult\<lparr>overallStats := Some ex_stats\<rparr>" ex_stats ex_raw None None]
    by simp
qed

section \<open>The overall statistics\<close>

lemma ratings_non_null:
  "ratings s = map the (filter (\<lambda>r. r \<noteq> None) (map FeedbackSnapshot.rating s))"
  by (induction s) (auto split: option.splits)

text \<open>
  C3. \<open>processOverallStats\<close> returns \<open>null\<close> exactly on the empty array. On a non-empty
  array \<open>s\<close> its \<open>totalResponses\<close> is the length of \<open>s\<close>, its \<open>averageRating\<close> is the mean of the
  ratings that are not \<open>null\<close>, and each distinct count is the cardinality of the set of
  the identifiers concerned.
\<close>

theorem processOverallStats_spec:
  "(processOverallStats s = None \<longleftrightarrow> s = []) \<and>
   (s \<noteq> [] \<longrightarrow>
      processOverallStats s = Some
        \<lparr>OverallStats.totalResponses = length s,
         OverallStats.averageRating =
           mean (map the (filter (\<lambda>r. r \<noteq> None) (map FeedbackSnapshot.rating s))),
         uniqueSubjects = card (FeedbackSnapshot.subjectId ` set s),
         uniqueFaculties = card (FeedbackSnapshot.facultyId ` set s),
         uniqueStudents = card (studentId ` set s),
         uniqueDivisions = card (FeedbackSnapshot.divisionId ` set s),
         uniqueDepartments = card (FeedbackSnapshot.departmentId ` set s)\<rparr>)"
  by (simp add: processOverallStats_def distinct_count_def ratings_non_null)

theorem processOverallStats_spec_witness:
  "ex_snapshots \<noteq> [] \<and>
   processOverallStats ex_snapshots = Some
     \<lparr>OverallStats.totalResponses = 3, OverallStats.averageRating = Some (9 / 2),
      uniqueSubjects = 1, uniqueFaculties = 1, uniqueStudents = 3, uniqueDivisions = 2,
      uniqueDepartments = 1\<rparr>"
proof -
  have h: "ex_snapshots \<noteq> []" by (simp add: ex_snapshots_def)
  have v: "length ex_snapshots = 3"
    "mean (map the (filter (\<lambda>r. r \<noteq> None) (map FeedbackSnapshot.rating ex_snapshots)))
       = Some (9 / 2)"
    "card (FeedbackSnapshot.subjectId ` set ex_snapshots) = 1"
    "card (FeedbackSnapshot.facultyId ` set ex_snapshots) = 1"
    "card (studentId ` set ex_snapshots) = 3"
    "card (FeedbackSnapshot.divisionId ` set ex_snapshots) = 2"
    "card (FeedbackSnapshot.departmentId ` set ex_snapshots) = 1"
    by (simp_all add: ex_snapshots_def ex_snapshot_def mean_def)
  from processOverallStats_spec [of ex_snapshots] h
  show ?thesis by (simp only: v) simp
qed

section \<open>The batch comparison and the subject detail\<close>

lemma keys_of_Nil: "keys_of f [] = []"
  by (simp add: keys_of_def first_seen_def)

lemma processDivisionComparisons_Nil: "processDivisionComparisons [] = []"
  by (simp add: processDivisionComparisons_def keys_of_Nil)







lemma group_of_absent: "k \<notin> f ` set xs \<Longrightarrow> group_of f k xs = []"
  by (auto simp: group_of_def filter_empty_conv)

lemma hook_detail_unselected:
  "filters ''subjectId'' = None \<or> filters ''subjectId'' = Some (StringValue [])
     \<or> filters ''subjectId'' = Some NonString \<Longrightarrow>
   subjectFacultyDetailPerformance (useProcessedAnalytics filters rawData) = None"
  by (auto simp: useProcessedAnalytics_def noDataResult_def isSingleSubjectIdSelected_def
      selected_string_def split: option.splits)

lemma hook_detail_selected:
  "filters ''subjectId'' = Some (StringValue sid) \<Longrightarrow> sid \<noteq> [] \<Longrightarrow>
   feedbackSnapshots raw = Some snaps \<Longrightarrow>
   subjectFacultyDetailPerformance (useProcessedAnalytics filters (Some raw)) =
     processSubjectFacultyDetailPerformance snaps sid"
  by (simp add: useProcessedAnalytics_def isSingleSubjectIdSelected_def selected_string_def
      string_of_value_def)

text \<open>
  C6. \<open>processSubjectFacultyDetailPerformance\<close> returns \<open>null\<close> for a subject that no snapshot
  is about. The hook's \<open>subjectFacultyDetailPerformance\<close> is \<open>null\<close> when no subject filter is
  selected (absent, empty or not a string), whatever the data; with a subject selected it
  is the processor's result for the snapshots and that very subject.
\<close>

theorem subject_detail_null:
  "(sid \<notin> FeedbackSnapshot.subjectId ` set snaps \<longrightarrow>
      processSubjectFacultyDetailPerformance snaps sid = None) \<and>
   (filters ''subjectId'' = None \<or> filters ''subjectId'' = Some (StringValue [])
      \<or> filters ''subjectId'' = Some NonString \<longrightarrow>
      subjectFacultyDetailPerformance (useProcessedAnalytics filters rawData) = None) \<and>
   (filters ''subjectId'' = Some (StringValue sid) \<and> sid \<noteq> [] \<and>
    feedbackSnapshots raw = Some snaps \<longrightarrow>
      subjectFacultyDetailPerformance (useProcessedAnalytics filters (Some raw)) =
        processSubjectFacultyDetailPerformance snaps sid)"
proof -
  have "processSubjectFacultyDetailPerformance snaps sid = None"
    if "sid \<notin> FeedbackSnapshot.subjectId ` set snaps"
    using group_of_absent [OF that]
    by (simp add: processSubjectFacultyDetailPerformance_def)
  with hook_detail_unselected [of filters rawData] hook_detail_selected [of filters sid raw snaps]
  show ?thesis by blast
qed

theorem subject_detail_null_witness:
  "''nonexistent-id'' \<notin> FeedbackSnapshot.subjectId ` set ex_snapshots \<and>
   processSubjectFacultyDetailPerformance ex_snapshots ''nonexistent-id'' = None \<and>
   ex_missing_filters ''subjectId'' = Some (StringValue ''nonexistent-id'') \<and>
   subjectFacultyDetailPerformance (useProcessedAnalytics ex_missing_filters (Some ex_full_raw))
     = None \<and>
   ex_filters ''subjectId'' = None \<and>
   subjectFacultyDetailPerformance (useProcessedAnalytics ex_filters (Some ex_full_raw)) = None"
proof -
  have a: "''nonexistent-id'' \<notin> FeedbackSnapshot.subjectId ` set ex_snapshots"
    by (simp add: ex_snapshots_def ex_snapshot_def)
  have b: "ex_missing_filters ''subjectId'' = Some (StringValue ''nonexistent-id'')"
    "''nonexistent-id'' \<noteq> []" "feedbackSnapshots ex_full_raw = Some ex_snapshots"
    by (simp_all add: ex_missing_filters_def ex_full_raw_def)
  have c: "ex_filters ''subjectId'' = None" by (simp add: ex_filters_def)
  from subject_detail_null [of "''nonexistent-id''" ex_snapshots ex_missing_filters
      "Some ex_full_raw" ex_full_raw] a b
  have 1: "processSubjectFacultyDetailPerformance ex_snapshots ''nonexistent-id'' = None"
    and 2: "subjectFacultyDetailPerformance
      (useProcessedAnalytics ex_missing_filters (Some ex_full_raw)) = None"
    by simp_all
  from subject_detail_null [of "''nonexistent-id''" ex_snapshots ex_filters
      "Some ex_full_raw" ex_full_raw] c
  have 3: "subjectFacultyDetailPerformance (useProcessedAnalytics ex_filters (Some ex_full_raw))
      = None"
    by simp
  from a b(1) c 1 2 3 show ?thesis by blast
qed

section \<open>The empty input\<close>

lemma processors_Nil:
  "processOverallStats [] = None"
  "processSubjectRatings [] = []"
  "processFacultyPerformance [] = []"
  "processLectureLabComparison [] = None"
  "getFilteringOptions [] = None"
  "processAcademicYearDepartmentTrends [] = []"
  "processAcademicYearSemesterTrends [] = []"
  "processAcademicYearDivisionTrends [] = []"
  "processSubjectFacultyPerformance [] = []"
  "processSubjectFacultyDetailPerformance [] sid = None"
  by (simp_all add: processOverallStats_def processSubjectRatings_def
      processFacultyPerformance_def assign_ranks_def processLectureLabComparison_def
      getFilteringOptions_def processAcademicYearDepartmentTrends_def
      processAcademicYearSemesterTrends_def processAcademicYearDivisionTrends_def
      processSubjectFacultyPerformance_def processSubjectFacultyDetailPerformance_def
      keys_of_Nil group_of_def)

lemma filtered_Nil: "filteredSnapshotsForBatchComparison filters [] = []"
  by (simp add: filteredSnapshotsForBatchComparison_def)

lemma noDataResult_empty: "all_views_empty noDataResult"
  by (simp add: all_views_empty_def noDataResult_def)

text \<open>
  C2. With no data from the query, or data without snapshots, the hook returns its
  no-data object, in which every view is empty; with the empty snapshot array every view
  is empty as well, whatever the filters. All the functions involved are total: no path
  raises.
\<close>

theorem empty_input_views:
  "useProcessedAnalytics filters None = noDataResult \<and>
   all_views_empty (useProcessedAnalytics filters None) \<and>
   (feedbackSnapshots raw = None \<longrightarrow>
      useProcessedAnalytics filters (Some raw) = noDataResult \<and>
      all_views_empty (useProcessedAnalytics filters (Some raw))) \<and>
   (feedbackSnapshots raw = Some [] \<longrightarrow>
      all_views_empty (useProcessedAnalytics filters (Some raw)))"
proof -
  have none: "useProcessedAnalytics filters None = noDataResult"
    by (simp add: useProcessedAnalytics_def)
  have missing: "useProcessedAnalytics filters (Some raw) = noDataResult"
    if "feedbackSnapshots raw = None"
    using that by (simp add: useProcessedAnalytics_def)
  have empty: "all_views_empty (useProcessedAnalytics filters (Some raw))"
    if "feedbackSnapshots raw = Some []"
    using that
    by (simp add: useProcessedAnalytics_def all_views_empty_def processors_Nil
        processDivisionComparisons_Nil filtered_Nil)
  from none missing empty noDataResult_empty show ?thesis by simp
qed

theorem empty_input_views_witness:
  "feedbackSnapshots ex_raw = Some [] \<and>
   all_views_empty (useProcessedAnalytics ex_subject_filters (Some ex_raw))"
proof -
  have h: "feedbackSnapshots ex_raw = Some []" by (simp add: ex_raw_def)
  with empty_input_views [of ex_subject_filters ex_raw] show ?thesis by blast
qed

section \<open>The metrics as a function of their inputs\<close>



end
